theory Spec2Isabelle
  imports Main
begin

section \<open>Errors and string tests\<close>

text \<open>
  A Go \<open>error\<close> value. \<open>AwsError code message\<close> is an \<open>awserr.Error\<close> of the AWS SDK,
  \<open>Errorf prefix e\<close> is \<open>fmt.Errorf(prefix + ": %w", e)\<close>, \<open>NotFoundError last request\<close> is
  \<open>resource.NotFoundError\<close> with its \<open>LastError\<close> and the identifier of its \<open>LastRequest\<close>,
  and \<open>OtherError\<close> is any error that is no \<open>awserr.Error\<close>.
  A value of type \<open>error option\<close> is a Go error variable; \<open>None\<close> is \<open>nil\<close>.
\<close>

datatype error =
    AwsError string string
  | OtherError string
  | Errorf string error
  | NotFoundError error string

text \<open>\<open>strings.HasPrefix s p\<close> and \<open>strings.Contains s sub\<close> of the Go standard library.\<close>

fun HasPrefix :: "string \<Rightarrow> string \<Rightarrow> bool" where
  "HasPrefix s [] = True"
| "HasPrefix [] (p # ps) = False"
| "HasPrefix (c # cs) (p # ps) = (c = p \<and> HasPrefix cs ps)"

fun Contains :: "string \<Rightarrow> string \<Rightarrow> bool" where
  "Contains [] sub = (sub = [])"
| "Contains (c # cs) sub = (if HasPrefix (c # cs) sub then True else Contains cs sub)"

text \<open>
  \<open>errors.As(err, &awsErr)\<close>: the first \<open>awserr.Error\<close> on the chain of wrapped errors,
  as its code and its message.
\<close>

fun asAwsErr :: "error \<Rightarrow> (string \<times> string) option" where
  "asAwsErr (AwsError c m) = Some (c, m)"
| "asAwsErr (OtherError s) = None"
| "asAwsErr (Errorf p e) = asAwsErr e"
| "asAwsErr (NotFoundError e r) = asAwsErr e"

text \<open>
  \<open>tfawserr.ErrCodeEquals\<close> and \<open>tfawserr.ErrMessageContains\<close> of aws-sdk-go-base: both are
  false on a nil error and on an error that holds no \<open>awserr.Error\<close>.
\<close>

definition ErrCodeEquals :: "error option \<Rightarrow> string \<Rightarrow> bool" where
  "ErrCodeEquals err code =
     (case err of
        None \<Rightarrow> False
      | Some e \<Rightarrow> (case asAwsErr e of None \<Rightarrow> False | Some (c, m) \<Rightarrow> c = code))"

definition ErrMessageContains :: "error option \<Rightarrow> string \<Rightarrow> string \<Rightarrow> bool" where
  "ErrMessageContains err code message =
     (case err of
        None \<Rightarrow> False
      | Some e \<Rightarrow>
          (case asAwsErr e of
             None \<Rightarrow> False
           | Some (c, m) \<Rightarrow> c = code \<and> Contains m message))"

section \<open>Retry handlers of internal/conns/config.go\<close>

text \<open>
  The fields of \<open>request.Request\<close> that the handlers read and write: \<open>r.Operation.Name\<close>,
  \<open>r.Error\<close>, \<open>r.RetryCount\<close> and \<open>r.Retryable\<close> (a \<open>*bool\<close>; \<open>None\<close> is \<open>nil\<close>, the SDK's
  default decision).
\<close>

record request =
  OperationName :: string
  Error :: "error option"
  RetryCount :: int
  Retryable :: "bool option"

text \<open>
  Each handler is a closure built inside \<open>ConfigureProvider\<close>. The first argument
  of the three models below is the variable \<open>err\<close> of \<open>ConfigureProvider\<close> that the closure
  captures; the handlers of configservice and wafv2 read it, the handler of ec2 shadows it
  with \<open>err := r.Error\<close>.
\<close>

definition configserviceRetry :: "error option \<Rightarrow> request \<Rightarrow> request" where
  "configserviceRetry err r =
     (if OperationName r \<in> {''DeleteOrganizationConfigRule'', ''DescribeOrganizationConfigRules'',
           ''DescribeOrganizationConfigRuleStatuses'', ''PutOrganizationConfigRule''}
      then
        (if \<not> ErrMessageContains (Error r) ''OrganizationAccessDeniedException''
               ''This action can be only made by AWS Organization's master account.''
         then r
         else if RetryCount r < 9 then r\<lparr>Retryable := Some True\<rparr>
         else r\<lparr>Retryable := Some False\<rparr>)
      else if OperationName r \<in> {''DeleteOrganizationConformancePack'',
           ''DescribeOrganizationConformancePacks'', ''DescribeOrganizationConformancePackStatuses'',
           ''PutOrganizationConformancePack''}
      then
        (if \<not> ErrCodeEquals (Error r) ''OrganizationAccessDeniedException''
         then
           (if OperationName r = ''DeleteOrganizationConformancePack''
                 \<and> ErrCodeEquals err ''ResourceInUseException''
            then r\<lparr>Retryable := Some True\<rparr>
            else r)
         else if RetryCount r < 9 then r\<lparr>Retryable := Some True\<rparr>
         else r\<lparr>Retryable := Some False\<rparr>)
      else r)"

definition ec2Retry :: "error option \<Rightarrow> request \<Rightarrow> request" where
  "ec2Retry outer r =
     (let err = Error r; name = OperationName r in
      if name \<in> {''AttachVpnGateway'', ''DetachVpnGateway''} then
        (if ErrMessageContains err ''InvalidParameterValue''
              ''This call cannot be completed because there are pending VPNs or Virtual Interfaces''
         then r\<lparr>Retryable := Some True\<rparr> else r)
      else if name = ''CreateClientVpnEndpoint'' then
        (if ErrMessageContains err ''OperationNotPermitted''
              ''Endpoint cannot be created while another endpoint is being created''
         then r\<lparr>Retryable := Some True\<rparr> else r)
      else if name \<in> {''CreateClientVpnRoute'', ''DeleteClientVpnRoute''} then
        (if ErrMessageContains err ''ConcurrentMutationLimitExceeded''
              ''Cannot initiate another change for this endpoint at this time''
         then r\<lparr>Retryable := Some True\<rparr> else r)
      else if name = ''CreateVpnConnection'' then
        (if ErrMessageContains err ''VpnConnectionLimitExceeded''
              ''maximum number of mutating objects has been reached''
         then r\<lparr>Retryable := Some True\<rparr> else r)
      else if name = ''CreateVpnGateway'' then
        (if ErrMessageContains err ''VpnGatewayLimitExceeded''
              ''maximum number of mutating objects has been reached''
         then r\<lparr>Retryable := Some True\<rparr> else r)
      else if name = ''RunInstances'' then
        (if ErrCodeEquals err ''InsufficientInstanceCapacity''
         then r\<lparr>Retryable := Some False\<rparr> else r)
      else r)"

definition wafv2Retry :: "error option \<Rightarrow> request \<Rightarrow> request" where
  "wafv2Retry err r =
     (let r1 = (if ErrMessageContains (Error r) ''WAFInternalErrorException'' ''Retry your request''
                then r\<lparr>Retryable := Some True\<rparr> else r);
          r2 = (if ErrMessageContains (Error r1) ''WAFServiceLinkedRoleErrorException'' ''Retry''
                then r1\<lparr>Retryable := Some True\<rparr> else r1)
      in
      if OperationName r2 = ''CreateIPSet'' \<or> OperationName r2 = ''CreateRegexPatternSet''
           \<or> OperationName r2 = ''CreateRuleGroup'' \<or> OperationName r2 = ''CreateWebACL''
      then
        (let r3 = (if ErrMessageContains (Error r2) ''WAFTagOperationException'' ''Retry your request''
                   then r2\<lparr>Retryable := Some True\<rparr> else r2)
         in if ErrMessageContains err ''WAFTagOperationInternalErrorException'' ''Retry your request''
            then r3\<lparr>Retryable := Some True\<rparr> else r3)
      else r2)"

section \<open>ConfigureProvider\<close>

text \<open>
  The fields of \<open>Config\<close> that decide the control flow of \<open>ConfigureProvider\<close> up to the
  account filters.
\<close>

record Config =
  AllowedAccountIds :: "string list"
  ForbiddenAccountIds :: "string list"
  SkipRegionValidation :: bool

text \<open>
  What the calls into aws-sdk-go-base return: \<open>GetAwsConfig\<close> gives the region of the
  configuration and an error, \<open>ValidateRegion\<close> an error, \<open>GetSession\<close> an error, and
  \<open>GetAwsAccountIDAndPartition\<close> the account ID, the partition and an error.
\<close>

record awsbase =
  GetAwsConfig :: "string \<times> error option"
  ValidateRegion :: "string \<Rightarrow> error option"
  GetSession :: "error option"
  GetAwsAccountIDAndPartition :: "string \<times> string \<times> error option"

datatype diagnostic =
    ConfiguringProvider error
  | InvalidRegion error
  | CreatingSession error
  | RetrievingAccountDetails error
  | AccountIDNotAllowed string

record AWSClient =
  AccountID :: string
  Partition :: string
  Region :: string
  configserviceHandler :: "request \<Rightarrow> request"
  ec2Handler :: "request \<Rightarrow> request"
  wafv2Handler :: "request \<Rightarrow> request"

text \<open>\<open>for _, id := range ids { if accountID == id { ... } }\<close>: is some element equal?\<close>

fun rangeFinds :: "string \<Rightarrow> string list \<Rightarrow> bool" where
  "rangeFinds accountID [] = False"
| "rangeFinds accountID (x # xs) = (if accountID = x then True else rangeFinds accountID xs)"

text \<open>
  \<open>ConfigureProvider\<close> returns \<open>(nil, diagnostics)\<close>, here \<open>Inl\<close>, or \<open>(client, nil)\<close>, here
  \<open>Inr\<close>. The variable \<open>err\<close> is assigned three times; the handlers are built after the
  last assignment and capture that variable.
\<close>

definition ConfigureProvider :: "Config \<Rightarrow> awsbase \<Rightarrow> diagnostic + AWSClient" where
  "ConfigureProvider c b =
     (case GetAwsConfig b of (cfgRegion, err) \<Rightarrow>
      (case err of Some e \<Rightarrow> Inl (ConfiguringProvider e) | None \<Rightarrow>
      (case (if \<not> SkipRegionValidation c then ValidateRegion b cfgRegion else None) of
         Some e \<Rightarrow> Inl (InvalidRegion e) | None \<Rightarrow>
      (case GetSession b of Some e \<Rightarrow> Inl (CreatingSession e) | None \<Rightarrow>
      (case GetAwsAccountIDAndPartition b of (accountID, partitionName, err) \<Rightarrow>
      (case err of Some e \<Rightarrow> Inl (RetrievingAccountDetails e) | None \<Rightarrow>
       if ForbiddenAccountIds c \<noteq> [] \<and> rangeFinds accountID (AllowedAccountIds c)
       then Inl (AccountIDNotAllowed accountID)
       else if AllowedAccountIds c \<noteq> [] \<and> \<not> rangeFinds accountID (AllowedAccountIds c)
       then Inl (AccountIDNotAllowed accountID)
       else Inr \<lparr>AccountID = accountID, Partition = partitionName, Region = cfgRegion,
                 configserviceHandler = configserviceRetry err,
                 ec2Handler = ec2Retry err,
                 wafv2Handler = wafv2Retry err\<rparr>))))))"

section \<open>Tag sets\<close>

text \<open>
  Modelled from the spec: the package internal/tags (\<open>tftags\<close>) is not among the sources.
  The spec describes a tag set as an "ordered-irrelevant mapping from string key to string
  value", reconciled "via set-difference (added/removed/unchanged)". \<open>KeyValueTags\<close> is
  that mapping. The generated helpers hand the values over as \<open>*string\<close>, so the value of a
  key is \<open>Some s\<close> for the string \<open>s\<close> and \<open>None\<close> for a nil pointer, which is no string
  and differs from the empty string. \<open>len(t) > 0\<close> is \<open>t \<noteq> Map.empty\<close>.
\<close>

type_synonym KeyValueTags = "string \<rightharpoonup> string option"

text \<open>\<open>aws.StringValue\<close> of the AWS SDK: the string a \<open>*string\<close> points to, empty for nil.\<close>

definition StringValue :: "string option \<Rightarrow> string" where
  "StringValue p = (case p of None \<Rightarrow> [] | Some s \<Rightarrow> s)"

text \<open>
  The values of type \<open>any\<close> that the tag helpers hand to \<open>tftags.New\<close>: nil, a
  \<open>map[string]string\<close> and a \<open>map[string]*string\<close>.
\<close>

datatype any_tags =
    NilValue
  | StringMap "string \<rightharpoonup> string"
  | PointerMap "string \<rightharpoonup> string option"

text \<open>
  Modelled from the spec: \<open>tftags.New\<close> is not among the sources. It builds the tag set of
  the spec from the value it is given: the empty tag set from nil, and a mapping with the
  same keys and the same values from a map. A nil value pointer stays a nil value.
\<close>

fun New :: "any_tags \<Rightarrow> KeyValueTags" where
  "New NilValue = Map.empty"
| "New (StringMap m) = (\<lambda>k. case m k of None \<Rightarrow> None | Some s \<Rightarrow> Some (Some s))"
| "New (PointerMap m) = m"

text \<open>
  Modelled from the spec: \<open>KeyValueTags.Removed\<close> and \<open>KeyValueTags.Updated\<close> are not among
  the sources. They are the set-differences of the spec: \<open>Removed old new\<close> holds the tags of
  \<open>old\<close> whose key \<open>new\<close> lacks (removed), \<open>Updated old new\<close> the tags of \<open>new\<close> that \<open>old\<close>
  lacks or holds with another value (added); a tag in both with one value is in
  neither (unchanged).
\<close>

definition Removed :: "KeyValueTags \<Rightarrow> KeyValueTags \<Rightarrow> KeyValueTags" where
  "Removed old new = (\<lambda>k. if new k = None then old k else None)"

definition Updated :: "KeyValueTags \<Rightarrow> KeyValueTags \<Rightarrow> KeyValueTags" where
  "Updated old new = (\<lambda>k. if new k = old k then None else new k)"

text \<open>
  The rest of \<open>tftags\<close> that the helpers call is a parameter of the model, since the spec
  says nothing about it: \<open>IgnoreAWS\<close>, \<open>Keys\<close>, and \<open>MapRange\<close>, the entries of \<open>tags.Map()\<close>
  (a \<open>map[string]string\<close>) in the order in which the Go runtime ranges over them.
\<close>

record tftags =
  IgnoreAWS :: "KeyValueTags \<Rightarrow> KeyValueTags"
  Keys :: "KeyValueTags \<Rightarrow> string list"
  MapRange :: "KeyValueTags \<Rightarrow> (string \<times> string) list"

text \<open>
  A range over a Go map yields every entry once, in no fixed order: \<open>kvs\<close> enumerates the
  \<open>map[string]string\<close> \<open>m\<close>.
\<close>

definition enumerates :: "(string \<times> string) list \<Rightarrow> (string \<rightharpoonup> string) \<Rightarrow> bool" where
  "enumerates kvs m = (distinct (map fst kvs) \<and> map_of kvs = m)"

section \<open>The generated tag helpers (tags_gen.go)\<close>

text \<open>The service's \<open>Tag\<close> struct; both fields are \<open>*string\<close>.\<close>

record Tag =
  Key :: "string option"
  Value :: "string option"

text \<open>
  \<open>Tags\<close>: one \<open>Tag\<close> per entry of \<open>tags.Map()\<close>, appended in the order of the range.
\<close>

definition Tags :: "(KeyValueTags \<Rightarrow> (string \<times> string) list) \<Rightarrow> KeyValueTags \<Rightarrow> Tag list" where
  "Tags rng tags = map (\<lambda>(k, v). \<lparr>Key = Some k, Value = Some v\<rparr>) (rng tags)"

text \<open>
  \<open>KeyValueTags\<close>: the loop \<open>m[aws.StringValue(tag.Key)] = tag.Value\<close> over the list, then
  \<open>tftags.New(ctx, m)\<close>.
\<close>

fun KeyValueTags_loop :: "(string \<rightharpoonup> string option) \<Rightarrow> Tag list \<Rightarrow> (string \<rightharpoonup> string option)" where
  "KeyValueTags_loop m [] = m"
| "KeyValueTags_loop m (tag # tags) = KeyValueTags_loop (m(StringValue (Key tag) \<mapsto> Value tag)) tags"

definition KeyValueTags :: "Tag list \<Rightarrow> KeyValueTags" where
  "KeyValueTags tags = New (PointerMap (KeyValueTags_loop Map.empty tags))"

section \<open>Contexts and SDK calls\<close>

text \<open>
  A \<open>context.Context\<close> of the Go standard library: the background context and the contexts
  derived from a parent, with cancellation of their own (\<open>WithCancel\<close>, \<open>WithTimeout\<close>) or
  with a value (\<open>WithValue\<close>). A derived context differs from its parent.
\<close>

datatype Context =
    Background
  | WithCancel Context
  | WithTimeout Context nat
  | WithValue Context string string

record TagDescription =
  ResourceArn :: "string option"
  TagDescription_Tags :: "Tag list"

record ListServicesInput =
  Cluster :: "string option"
  LaunchType :: string
  SchedulingStrategy :: string
  NextToken :: "string option"

record ListServicesOutput =
  ServiceArns :: "string list"
  OutputNextToken :: "string option"

text \<open>An SDK call as the SDK received it: the operation, its context and its input.\<close>

datatype invocation =
    ListTagsForResource Context string
  | UntagResource Context string "string list"
  | TagResource Context string "Tag list"
  | DescribeTags Context "string list"
  | ListServices Context ListServicesInput

fun ctxOf :: "invocation \<Rightarrow> Context" where
  "ctxOf (ListTagsForResource c i) = c"
| "ctxOf (UntagResource c i ks) = c"
| "ctxOf (TagResource c i ts) = c"
| "ctxOf (DescribeTags c is) = c"
| "ctxOf (ListServices c inp) = c"

text \<open>
  The service connections (\<open>shieldiface.ShieldAPI\<close>, \<open>ecsiface.ECSAPI\<close>,
  \<open>elbv2iface.ELBV2API\<close>, \<open>*ecs.Client\<close>): what each method answers to the context and the
  input it receives. \<open>Inl\<close> is a non-nil error, \<open>Inr\<close> the output with a nil error.
\<close>

record TagAPI =
  ListTagsForResourceWithContext :: "Context \<Rightarrow> string \<Rightarrow> error + Tag list"
  UntagResourceWithContext :: "Context \<Rightarrow> string \<Rightarrow> string list \<Rightarrow> error option"
  TagResourceWithContext :: "Context \<Rightarrow> string \<Rightarrow> Tag list \<Rightarrow> error option"

record ELBV2API =
  DescribeTagsWithContext :: "Context \<Rightarrow> string list \<Rightarrow> error + TagDescription list"

record ECSClient =
  ListServicesCall :: "Context \<Rightarrow> ListServicesInput \<Rightarrow> error + ListServicesOutput"

text \<open>
  Calling a method of a connection. The SDK records the call from the arguments it
  receives and gives the answer of the method to the same arguments, so the record of a
  call holds the context that was passed and no other. The helpers below reach a
  connection through these five functions only, and return the records of their calls in
  order beside their result.
\<close>

definition call_ListTagsForResource ::
  "TagAPI \<Rightarrow> Context \<Rightarrow> string \<Rightarrow> (error + Tag list) \<times> invocation list" where
  "call_ListTagsForResource conn c arn =
     (ListTagsForResourceWithContext conn c arn, [ListTagsForResource c arn])"

definition call_UntagResource ::
  "TagAPI \<Rightarrow> Context \<Rightarrow> string \<Rightarrow> string list \<Rightarrow> error option \<times> invocation list" where
  "call_UntagResource conn c arn tagKeys =
     (UntagResourceWithContext conn c arn tagKeys, [UntagResource c arn tagKeys])"

definition call_TagResource ::
  "TagAPI \<Rightarrow> Context \<Rightarrow> string \<Rightarrow> Tag list \<Rightarrow> error option \<times> invocation list" where
  "call_TagResource conn c arn tags =
     (TagResourceWithContext conn c arn tags, [TagResource c arn tags])"

definition call_DescribeTags ::
  "ELBV2API \<Rightarrow> Context \<Rightarrow> string list \<Rightarrow> (error + TagDescription list) \<times> invocation list" where
  "call_DescribeTags conn c arns = (DescribeTagsWithContext conn c arns, [DescribeTags c arns])"

definition call_ListServices ::
  "ECSClient \<Rightarrow> Context \<Rightarrow> ListServicesInput \<Rightarrow> (error + ListServicesOutput) \<times> invocation list" where
  "call_ListServices conn c input = (ListServicesCall conn c input, [ListServices c input])"

section \<open>ListTags and UpdateTags (tags_gen.go)\<close>

text \<open>\<open>ListTags\<close> of shield (that of codeartifact is the same code).\<close>

definition shield_ListTags ::
  "Context \<Rightarrow> TagAPI \<Rightarrow> string \<Rightarrow> (KeyValueTags option \<times> error option) \<times> invocation list" where
  "shield_ListTags ctx conn identifier =
     (case call_ListTagsForResource conn ctx identifier of
        (Inl err, calls) \<Rightarrow> ((Some (New NilValue), Some err), calls)
      | (Inr outputTags, calls) \<Rightarrow> ((Some (KeyValueTags outputTags), None), calls))"

text \<open>
  \<open>ListTags\<close> of ecs. The test with \<open>tfawserr.ErrMessageContains\<close> comes before the test
  \<open>err != nil\<close> and is false on a nil error. The first component \<open>None\<close> is the nil tag set.
\<close>

definition ecs_ListTags ::
  "Context \<Rightarrow> TagAPI \<Rightarrow> string \<Rightarrow> (KeyValueTags option \<times> error option) \<times> invocation list" where
  "ecs_ListTags ctx conn identifier =
     (case call_ListTagsForResource conn ctx identifier of
        (Inl err, calls) \<Rightarrow>
          (if ErrMessageContains (Some err) ''InvalidParameterException''
                ''The specified cluster is inactive. Specify an active cluster and try again.''
           then ((None, Some (NotFoundError err identifier)), calls)
           else ((Some (New NilValue), Some err), calls))
      | (Inr outputTags, calls) \<Rightarrow> ((Some (KeyValueTags outputTags), None), calls))"

text \<open>
  \<open>ListTags\<close> of elbv2 reads \<open>output.TagDescriptions[0]\<close>; on an empty slice the Go runtime
  panics (index out of range).
\<close>

datatype 'a outcome = Panic | Return 'a

definition elbv2_ListTags ::
  "Context \<Rightarrow> ELBV2API \<Rightarrow> string \<Rightarrow> (KeyValueTags option \<times> error option) outcome \<times> invocation list" where
  "elbv2_ListTags ctx conn identifier =
     (case call_DescribeTags conn ctx [identifier] of
        (Inl err, calls) \<Rightarrow> (Return (Some (New NilValue), Some err), calls)
      | (Inr tagDescriptions, calls) \<Rightarrow>
          (case tagDescriptions of
             [] \<Rightarrow> (Panic, calls)
           | td # rest \<Rightarrow> (Return (Some (KeyValueTags (TagDescription_Tags td)), None), calls)))"

text \<open>
  \<open>UpdateTags\<close> of shield, ecs, wafv2 and codeartifact (one generated body; those of elbv2
  and ssoadmin differ in the input structs only).
\<close>

definition UpdateTags ::
  "tftags \<Rightarrow> Context \<Rightarrow> TagAPI \<Rightarrow> string \<Rightarrow> any_tags \<Rightarrow> any_tags \<Rightarrow> error option \<times> invocation list" where
  "UpdateTags tf ctx conn identifier oldTagsMap newTagsMap =
     (let oldTags = New oldTagsMap;
          newTags = New newTagsMap;
          removedTags = Removed oldTags newTags;
          (untagErr, untagCalls) =
            (if removedTags \<noteq> Map.empty
             then call_UntagResource conn ctx identifier (Keys tf (IgnoreAWS tf removedTags))
             else (None, []))
      in
      case untagErr of
        Some err \<Rightarrow> (Some (Errorf (''untagging resource ('' @ identifier @ '')'') err), untagCalls)
      | None \<Rightarrow>
          (let updatedTags = Updated oldTags newTags in
           if updatedTags \<noteq> Map.empty
           then
             (case call_TagResource conn ctx identifier
                     (Tags (MapRange tf) (IgnoreAWS tf updatedTags)) of
                (Some err, tagCalls) \<Rightarrow>
                  (Some (Errorf (''tagging resource ('' @ identifier @ '')'') err),
                   untagCalls @ tagCalls)
              | (None, tagCalls) \<Rightarrow> (None, untagCalls @ tagCalls))
           else (None, untagCalls)))"

section \<open>The ECS services data source (services_data_source.go)\<close>

text \<open>
  \<open>ecs.ListServicesPaginator\<close> of the AWS SDK for Go v2: \<open>NewListServicesPaginator\<close>,
  \<open>HasMorePages\<close> and \<open>NextPage\<close>, which calls \<open>ListServices\<close> with the context it is given and
  the stored token.
\<close>

record ListServicesPaginator =
  params :: ListServicesInput
  nextToken :: "string option"
  firstPage :: bool

definition NewListServicesPaginator :: "ListServicesInput \<Rightarrow> ListServicesPaginator" where
  "NewListServicesPaginator input = \<lparr>params = input, nextToken = NextToken input, firstPage = True\<rparr>"

definition HasMorePages :: "ListServicesPaginator \<Rightarrow> bool" where
  "HasMorePages p = (firstPage p \<or> (case nextToken p of None \<Rightarrow> False | Some t \<Rightarrow> t \<noteq> []))"

definition NextPage ::
  "Context \<Rightarrow> ECSClient \<Rightarrow> ListServicesPaginator
     \<Rightarrow> (error + ListServicesOutput) \<times> ListServicesPaginator \<times> invocation list" where
  "NextPage ctx conn p =
     (if \<not> HasMorePages p then (Inl (OtherError ''no more pages available''), p, [])
      else
        (case call_ListServices conn ctx ((params p)\<lparr>NextToken := nextToken p\<rparr>) of
           (Inl err, calls) \<Rightarrow> (Inl err, p, calls)
         | (Inr result, calls) \<Rightarrow>
             (Inr result, p\<lparr>firstPage := False, nextToken := OutputNextToken result\<rparr>, calls)))"

text \<open>
  The loop of \<open>listServices\<close>. It ends when the service answers with no token or with an
  error; the first argument bounds the number of pages fetched, and the result is \<open>None\<close>
  when the bound is reached with pages left. The calls made so far are returned in
  every case.
\<close>

fun listServices_loop ::
  "nat \<Rightarrow> Context \<Rightarrow> ECSClient \<Rightarrow> ListServicesPaginator \<Rightarrow> string list \<Rightarrow> invocation list
     \<Rightarrow> (error + string list) option \<times> invocation list" where
  "listServices_loop 0 ctx conn pages output log =
     (if \<not> HasMorePages pages then (Some (Inr output), log) else (None, log))"
| "listServices_loop (Suc n) ctx conn pages output log =
     (if \<not> HasMorePages pages then (Some (Inr output), log)
      else
        (case NextPage ctx conn pages of
           (Inl err, pages', calls) \<Rightarrow> (Some (Inl err), log @ calls)
         | (Inr page, pages', calls) \<Rightarrow>
             listServices_loop n ctx conn pages' (output @ ServiceArns page) (log @ calls)))"

definition listServices ::
  "nat \<Rightarrow> Context \<Rightarrow> ECSClient \<Rightarrow> ListServicesInput
     \<Rightarrow> (error + string list) option \<times> invocation list" where
  "listServices n ctx conn input =
     listServices_loop n ctx conn (NewListServicesPaginator input) [] []"

section \<open>The handlers that ConfigureProvider installs\<close>

lemma ConfigureProvider_handlers:
  assumes "ConfigureProvider c b = Inr client"
  shows "configserviceHandler client = configserviceRetry None"
    and "ec2Handler client = ec2Retry None"
    and "wafv2Handler client = wafv2Retry None"
  using assms
  by (auto simp: ConfigureProvider_def split: prod.splits option.splits if_splits)

lemma ConfigureProvider_account:
  assumes "GetAwsConfig b = (reg, None)"
    and "SkipRegionValidation c \<or> ValidateRegion b reg = None"
    and "GetSession b = None"
    and "GetAwsAccountIDAndPartition b = (a, p, None)"
  shows "ConfigureProvider c b =
     (if ForbiddenAccountIds c \<noteq> [] \<and> rangeFinds a (AllowedAccountIds c)
      then Inl (AccountIDNotAllowed a)
      else if AllowedAccountIds c \<noteq> [] \<and> \<not> rangeFinds a (AllowedAccountIds c)
      then Inl (AccountIDNotAllowed a)
      else Inr \<lparr>AccountID = a, Partition = p, Region = reg,
                configserviceHandler = configserviceRetry None,
                ec2Handler = ec2Retry None,
                wafv2Handler = wafv2Retry None\<rparr>)"
  using assms by (auto simp: ConfigureProvider_def)

lemma rangeFinds_set: "rangeFinds a xs = (a \<in> set xs)"
  by (induction xs) auto

subsection \<open>Account filters\<close>

text \<open>
  C2. The claim: the diagnostic "AWS account ID not allowed" is returned exactly when the
  allow list is non-empty and lacks the account ID, or the forbid list is non-empty and
  holds it. The code ranges over \<open>AllowedAccountIds\<close> inside the check of
  \<open>ForbiddenAccountIds\<close>, so the forbid list's elements are never compared: with an empty
  allow list no account is refused, whatever the forbid list holds.
\<close>

theorem ConfigureProvider_forbidden_ids_not_compared:
  assumes "AllowedAccountIds c = []"
  shows "ConfigureProvider c b \<noteq> Inl (AccountIDNotAllowed a)"
  using assms
  by (auto simp: ConfigureProvider_def split: prod.splits option.splits if_splits)

theorem ConfigureProvider_forbidden_ids_not_compared_witness:
  "AllowedAccountIds \<lparr>AllowedAccountIds = [], ForbiddenAccountIds = [''123456789012''],
       SkipRegionValidation = False\<rparr> = []
   \<and> ConfigureProvider
        \<lparr>AllowedAccountIds = [], ForbiddenAccountIds = [''123456789012''],
         SkipRegionValidation = False\<rparr>
        \<lparr>GetAwsConfig = (''us-east-1'', None), ValidateRegion = (\<lambda>x. None), GetSession = None,
         GetAwsAccountIDAndPartition = (''123456789012'', ''aws'', None)\<rparr>
      \<noteq> Inl (AccountIDNotAllowed ''123456789012'')
   \<and> ConfigureProvider
        \<lparr>AllowedAccountIds = [], ForbiddenAccountIds = [''123456789012''],
         SkipRegionValidation = False\<rparr>
        \<lparr>GetAwsConfig = (''us-east-1'', None), ValidateRegion = (\<lambda>x. None), GetSession = None,
         GetAwsAccountIDAndPartition = (''123456789012'', ''aws'', None)\<rparr>
      = Inr \<lparr>AccountID = ''123456789012'', Partition = ''aws'', Region = ''us-east-1'',
             configserviceHandler = configserviceRetry None,
             ec2Handler = ec2Retry None,
             wafv2Handler = wafv2Retry None\<rparr>"
  using ConfigureProvider_forbidden_ids_not_compared
    [of "\<lparr>AllowedAccountIds = [], ForbiddenAccountIds = [''123456789012''],
          SkipRegionValidation = False\<rparr>"
        "\<lparr>GetAwsConfig = (''us-east-1'', None), ValidateRegion = (\<lambda>x. None), GetSession = None,
          GetAwsAccountIDAndPartition = (''123456789012'', ''aws'', None)\<rparr>"
        "''123456789012''"]
  by (simp add: ConfigureProvider_def)

subsection \<open>ConfigService\<close>

text \<open>
  C3. For the four organization config rule operations, a request that failed with an
  OrganizationAccessDeniedException whose message holds the sentence about the master
  account leaves the handler with \<open>Retryable\<close> set: to true when the retry count is below 9,
  to false when it is 9 or more.
\<close>

theorem configserviceRetry_organization_config_rule:
  assumes "OperationName r \<in> {''DeleteOrganizationConfigRule'', ''DescribeOrganizationConfigRules'',
             ''DescribeOrganizationConfigRuleStatuses'', ''PutOrganizationConfigRule''}"
    and "Error r = Some e"
    and "asAwsErr e = Some (''OrganizationAccessDeniedException'', m)"
    and "Contains m ''This action can be only made by AWS Organization's master account.''"
  shows "Retryable (configserviceRetry err r) = Some (RetryCount r < 9)"
proof -
  have hit: "ErrMessageContains (Error r) ''OrganizationAccessDeniedException''
               ''This action can be only made by AWS Organization's master account.''"
    using assms(2-4) by (simp add: ErrMessageContains_def)
  have first: "OperationName r \<in> {''DeleteOrganizationConfigRule'', ''DescribeOrganizationConfigRules'',
             ''DescribeOrganizationConfigRuleStatuses'', ''PutOrganizationConfigRule''}"
    by (rule assms(1))
  show ?thesis
    unfolding configserviceRetry_def using hit first by simp
qed

theorem configserviceRetry_organization_config_rule_witness:
  "Retryable (configserviceRetry None
      \<lparr>OperationName = ''PutOrganizationConfigRule'',
       Error = Some (AwsError ''OrganizationAccessDeniedException''
                 ''This action can be only made by AWS Organization's master account.''),
       RetryCount = 8, Retryable = None\<rparr>) = Some True
   \<and> Retryable (configserviceRetry None
      \<lparr>OperationName = ''PutOrganizationConfigRule'',
       Error = Some (AwsError ''OrganizationAccessDeniedException''
                 ''This action can be only made by AWS Organization's master account.''),
       RetryCount = 9, Retryable = None\<rparr>) = Some False"
proof -
  have c: "Contains ''This action can be only made by AWS Organization's master account.''
             ''This action can be only made by AWS Organization's master account.''"
    by simp
  show ?thesis
    using
      configserviceRetry_organization_config_rule
        [of "\<lparr>OperationName = ''PutOrganizationConfigRule'',
              Error = Some (AwsError ''OrganizationAccessDeniedException''
                 ''This action can be only made by AWS Organization's master account.''),
              RetryCount = 8, Retryable = None\<rparr>"
            "AwsError ''OrganizationAccessDeniedException''
                 ''This action can be only made by AWS Organization's master account.''"
            "''This action can be only made by AWS Organization's master account.''" None]
      configserviceRetry_organization_config_rule
        [of "\<lparr>OperationName = ''PutOrganizationConfigRule'',
              Error = Some (AwsError ''OrganizationAccessDeniedException''
                 ''This action can be only made by AWS Organization's master account.''),
              RetryCount = 9, Retryable = None\<rparr>"
            "AwsError ''OrganizationAccessDeniedException''
                 ''This action can be only made by AWS Organization's master account.''"
            "''This action can be only made by AWS Organization's master account.''" None]
      c
    by simp
qed

text \<open>
  C6. The claim: a DeleteOrganizationConformancePack request that failed with a
  ResourceInUseException is marked retryable. The handler tests the captured variable
  \<open>err\<close> of \<open>ConfigureProvider\<close>, which is nil once the handler exists, where the lines
  around it test \<open>r.Error\<close>: the installed handler returns such a request as it came.
\<close>

theorem configserviceHandler_resource_in_use_unmarked:
  assumes "ConfigureProvider c b = Inr client"
    and "OperationName r = ''DeleteOrganizationConformancePack''"
    and "Error r = Some e"
    and "asAwsErr e = Some (''ResourceInUseException'', m)"
  shows "configserviceHandler client r = r"
proof -
  have h: "configserviceHandler client = configserviceRetry None"
    using assms(1) by (rule ConfigureProvider_handlers)
  have miss: "\<not> ErrCodeEquals (Error r) ''OrganizationAccessDeniedException''"
    using assms(3,4) by (simp add: ErrCodeEquals_def)
  have nil: "\<not> ErrCodeEquals None ''ResourceInUseException''"
    by (simp add: ErrCodeEquals_def)
  show ?thesis
    unfolding h configserviceRetry_def using assms(2) miss nil by simp
qed

theorem configserviceHandler_resource_in_use_unmarked_witness:
  "configserviceHandler
     (projr (ConfigureProvider
        \<lparr>AllowedAccountIds = [], ForbiddenAccountIds = [], SkipRegionValidation = False\<rparr>
        \<lparr>GetAwsConfig = (''us-east-1'', None), ValidateRegion = (\<lambda>x. None), GetSession = None,
         GetAwsAccountIDAndPartition = (''123456789012'', ''aws'', None)\<rparr>))
     \<lparr>OperationName = ''DeleteOrganizationConformancePack'',
      Error = Some (AwsError ''ResourceInUseException'' ''The conformance pack is in use.''),
      RetryCount = 0, Retryable = None\<rparr>
   = \<lparr>OperationName = ''DeleteOrganizationConformancePack'',
      Error = Some (AwsError ''ResourceInUseException'' ''The conformance pack is in use.''),
      RetryCount = 0, Retryable = None\<rparr>"
proof -
  have ok: "ConfigureProvider
        \<lparr>AllowedAccountIds = [], ForbiddenAccountIds = [], SkipRegionValidation = False\<rparr>
        \<lparr>GetAwsConfig = (''us-east-1'', None), ValidateRegion = (\<lambda>x. None), GetSession = None,
         GetAwsAccountIDAndPartition = (''123456789012'', ''aws'', None)\<rparr>
      = Inr \<lparr>AccountID = ''123456789012'', Partition = ''aws'', Region = ''us-east-1'',
             configserviceHandler = configserviceRetry None,
             ec2Handler = ec2Retry None,
             wafv2Handler = wafv2Retry None\<rparr>"
    by (simp add: ConfigureProvider_def)
  show ?thesis
    unfolding ok sum.sel
    using configserviceHandler_resource_in_use_unmarked [OF ok,
        of "\<lparr>OperationName = ''DeleteOrganizationConformancePack'',
             Error = Some (AwsError ''ResourceInUseException'' ''The conformance pack is in use.''),
             RetryCount = 0, Retryable = None\<rparr>"
           "AwsError ''ResourceInUseException'' ''The conformance pack is in use.''"
           "''The conformance pack is in use.''"]
    by simp
qed

subsection \<open>EC2\<close>

text \<open>
  C7. A RunInstances request that failed with the error code InsufficientInstanceCapacity
  leaves the ec2 handler with \<open>Retryable\<close> set to false, whatever the SDK had decided before.
\<close>

theorem ec2Retry_insufficient_instance_capacity:
  assumes "OperationName r = ''RunInstances''"
    and "Error r = Some e"
    and "asAwsErr e = Some (''InsufficientInstanceCapacity'', m)"
  shows "Retryable (ec2Retry outer r) = Some False"
proof -
  have hit: "ErrCodeEquals (Error r) ''InsufficientInstanceCapacity''"
    using assms(2,3) by (simp add: ErrCodeEquals_def)
  show ?thesis
    unfolding ec2Retry_def Let_def using assms(1) hit by simp
qed

theorem ec2Retry_insufficient_instance_capacity_witness:
  "Retryable (ec2Retry None
      \<lparr>OperationName = ''RunInstances'',
       Error = Some (AwsError ''InsufficientInstanceCapacity''
                 ''There is no Spot capacity available that matches your request.''),
       RetryCount = 0, Retryable = Some True\<rparr>) = Some False"
  using ec2Retry_insufficient_instance_capacity
    [of "\<lparr>OperationName = ''RunInstances'',
          Error = Some (AwsError ''InsufficientInstanceCapacity''
                 ''There is no Spot capacity available that matches your request.''),
          RetryCount = 0, Retryable = Some True\<rparr>"
        "AwsError ''InsufficientInstanceCapacity''
                 ''There is no Spot capacity available that matches your request.''"
        "''There is no Spot capacity available that matches your request.''" None]
  by simp

subsection \<open>WAFv2\<close>

text \<open>
  C5. The claim: for CreateIPSet, CreateRegexPatternSet, CreateRuleGroup and CreateWebACL
  a WAFTagOperationException or a WAFTagOperationInternalErrorException whose message
  holds "Retry your request" is marked retryable. The test of
  WAFTagOperationInternalErrorException reads the captured variable \<open>err\<close> of
  \<open>ConfigureProvider\<close>, nil once the handler exists, where the test before it reads
  \<open>r.Error\<close>: the installed handler returns a request with that error as it came.
\<close>

theorem wafv2Handler_tag_operation_internal_error_unmarked:
  assumes "ConfigureProvider c b = Inr client"
    and "Error r = Some e"
    and "asAwsErr e = Some (''WAFTagOperationInternalErrorException'', m)"
  shows "wafv2Handler client r = r"
proof -
  have h: "wafv2Handler client = wafv2Retry None"
    using assms(1) by (rule ConfigureProvider_handlers)
  have miss: "\<not> ErrMessageContains (Error r) ''WAFInternalErrorException'' ''Retry your request''"
    "\<not> ErrMessageContains (Error r) ''WAFServiceLinkedRoleErrorException'' ''Retry''"
    "\<not> ErrMessageContains (Error r) ''WAFTagOperationException'' ''Retry your request''"
    using assms(2,3) by (simp_all add: ErrMessageContains_def)
  have nil: "\<not> ErrMessageContains None ''WAFTagOperationInternalErrorException'' ''Retry your request''"
    by (simp add: ErrMessageContains_def)
  show ?thesis
    unfolding h wafv2Retry_def Let_def using miss nil by simp
qed

theorem wafv2Handler_tag_operation_internal_error_unmarked_witness:
  "wafv2Handler
     (projr (ConfigureProvider
        \<lparr>AllowedAccountIds = [], ForbiddenAccountIds = [], SkipRegionValidation = True\<rparr>
        \<lparr>GetAwsConfig = (''us-east-1'', None), ValidateRegion = (\<lambda>x. None), GetSession = None,
         GetAwsAccountIDAndPartition = (''123456789012'', ''aws'', None)\<rparr>))
     \<lparr>OperationName = ''CreateWebACL'',
      Error = Some (AwsError ''WAFTagOperationInternalErrorException'' ''Retry your request.''),
      RetryCount = 0, Retryable = None\<rparr>
   = \<lparr>OperationName = ''CreateWebACL'',
      Error = Some (AwsError ''WAFTagOperationInternalErrorException'' ''Retry your request.''),
      RetryCount = 0, Retryable = None\<rparr>
   \<and> Retryable (wafv2Retry None
     \<lparr>OperationName = ''CreateWebACL'',
      Error = Some (AwsError ''WAFTagOperationException'' ''Retry your request.''),
      RetryCount = 0, Retryable = None\<rparr>) = Some True"
proof -
  have ok: "ConfigureProvider
        \<lparr>AllowedAccountIds = [], ForbiddenAccountIds = [], SkipRegionValidation = True\<rparr>
        \<lparr>GetAwsConfig = (''us-east-1'', None), ValidateRegion = (\<lambda>x. None), GetSession = None,
         GetAwsAccountIDAndPartition = (''123456789012'', ''aws'', None)\<rparr>
      = Inr \<lparr>AccountID = ''123456789012'', Partition = ''aws'', Region = ''us-east-1'',
             configserviceHandler = configserviceRetry None,
             ec2Handler = ec2Retry None,
             wafv2Handler = wafv2Retry None\<rparr>"
    by (simp add: ConfigureProvider_def)
  have sibling: "Retryable (wafv2Retry None
     \<lparr>OperationName = ''CreateWebACL'',
      Error = Some (AwsError ''WAFTagOperationException'' ''Retry your request.''),
      RetryCount = 0, Retryable = None\<rparr>) = Some True"
    by (simp add: wafv2Retry_def ErrMessageContains_def)
  show ?thesis
    unfolding ok sum.sel
    using sibling wafv2Handler_tag_operation_internal_error_unmarked [OF ok,
        of "\<lparr>OperationName = ''CreateWebACL'',
             Error = Some (AwsError ''WAFTagOperationInternalErrorException'' ''Retry your request.''),
             RetryCount = 0, Retryable = None\<rparr>"
           "AwsError ''WAFTagOperationInternalErrorException'' ''Retry your request.''"
           "''Retry your request.''"]
    by simp
qed


section \<open>Tag helpers\<close>

subsection \<open>Tag list and tag set\<close>

lemma KeyValueTags_loop_Tags:
  "distinct (map fst kvs) \<Longrightarrow>
   KeyValueTags_loop m (map (\<lambda>(k, v). \<lparr>Key = Some k, Value = Some v\<rparr>) kvs) x
     = (case map_of kvs x of None \<Rightarrow> m x | Some v \<Rightarrow> Some (Some v))"
proof (induction kvs arbitrary: m)
  case Nil
  then show ?case by simp
next
  case (Cons kv kvs)
  obtain k v where kv: "kv = (k, v)" by (cases kv)
  from Cons.prems kv have fresh: "map_of kvs k = None" and d: "distinct (map fst kvs)"
    by (auto simp: map_of_eq_None_iff)
  show ?case
    using fresh by (simp add: kv StringValue_def Cons.IH [OF d] split: option.splits)
qed

text \<open>
  C4. For every map \<open>t\<close> from string keys to string values, taken as a tag set, and every
  order in which the range over its \<open>Map()\<close> yields the entries of \<open>t\<close> (each once), the
  tag list \<open>Tags\<close> builds in that order is read back by \<open>KeyValueTags\<close> as the same tag set.
\<close>

theorem KeyValueTags_Tags_roundtrip:
  assumes "enumerates (rng (New (StringMap t))) t"
  shows "KeyValueTags (Tags rng (New (StringMap t))) = New (StringMap t)"
proof -
  define T where "T = New (StringMap t)"
  from assms have d: "distinct (map fst (rng T))" and m: "map_of (rng T) = t"
    by (simp_all add: enumerates_def T_def)
  have "KeyValueTags (Tags rng T) k = T k" for k
  proof -
    have Tk: "T k = (case t k of None \<Rightarrow> None | Some s \<Rightarrow> Some (Some s))"
      by (simp add: T_def)
    show ?thesis
      by (simp add: KeyValueTags_def Tags_def KeyValueTags_loop_Tags [OF d] m Tk)
  qed
  then have "KeyValueTags (Tags rng T) = T" by (rule ext)
  then show ?thesis by (simp only: T_def)
qed

theorem KeyValueTags_Tags_roundtrip_witness:
  "enumerates [(''Name'', ''web''), (''Env'', ''prod'')] [''Name'' \<mapsto> ''web'', ''Env'' \<mapsto> ''prod'']
   \<and> KeyValueTags (Tags (\<lambda>t. [(''Name'', ''web''), (''Env'', ''prod'')])
        (New (StringMap [''Name'' \<mapsto> ''web'', ''Env'' \<mapsto> ''prod''])))
      = New (StringMap [''Name'' \<mapsto> ''web'', ''Env'' \<mapsto> ''prod''])
   \<and> enumerates [(''Env'', ''prod''), (''Name'', ''web'')] [''Name'' \<mapsto> ''web'', ''Env'' \<mapsto> ''prod'']
   \<and> KeyValueTags (Tags (\<lambda>t. [(''Env'', ''prod''), (''Name'', ''web'')])
        (New (StringMap [''Name'' \<mapsto> ''web'', ''Env'' \<mapsto> ''prod''])))
      = New (StringMap [''Name'' \<mapsto> ''web'', ''Env'' \<mapsto> ''prod''])
   \<and> New (StringMap [''Name'' \<mapsto> ''web'', ''Env'' \<mapsto> ''prod''])
      = [''Name'' \<mapsto> Some ''web'', ''Env'' \<mapsto> Some ''prod'']"
proof -
  have e1: "enumerates [(''Name'', ''web''), (''Env'', ''prod'')]
              [''Name'' \<mapsto> ''web'', ''Env'' \<mapsto> ''prod'']"
    by (auto simp: enumerates_def fun_eq_iff)
  have e2: "enumerates [(''Env'', ''prod''), (''Name'', ''web'')]
              [''Name'' \<mapsto> ''web'', ''Env'' \<mapsto> ''prod'']"
    by (auto simp: enumerates_def fun_eq_iff)
  have n: "New (StringMap [''Name'' \<mapsto> ''web'', ''Env'' \<mapsto> ''prod''])
      = [''Name'' \<mapsto> Some ''web'', ''Env'' \<mapsto> Some ''prod'']"
    by (auto simp: fun_eq_iff)
  show ?thesis
    using e1 e2 n
      KeyValueTags_Tags_roundtrip
        [of "\<lambda>t. [(''Name'', ''web''), (''Env'', ''prod'')]"
            "[''Name'' \<mapsto> ''web'', ''Env'' \<mapsto> ''prod'']"]
      KeyValueTags_Tags_roundtrip
        [of "\<lambda>t. [(''Env'', ''prod''), (''Name'', ''web'')]"
            "[''Name'' \<mapsto> ''web'', ''Env'' \<mapsto> ''prod'']"]
    by simp
qed

subsection \<open>UpdateTags\<close>

lemma Removed_same: "Removed t t = Map.empty"
  by (auto simp: Removed_def fun_eq_iff)

lemma Updated_same: "Updated t t = Map.empty"
  by (simp add: Updated_def)

lemma UpdateTags_no_call:
  "(snd (UpdateTags tf ctx conn identifier oldTagsMap newTagsMap) = [])
     = (Removed (New oldTagsMap) (New newTagsMap) = Map.empty
        \<and> Updated (New oldTagsMap) (New newTagsMap) = Map.empty)"
  by (auto simp: UpdateTags_def Let_def call_UntagResource_def call_TagResource_def
      split: option.splits)

text \<open>
  A nil value and the empty string are different values: replacing the one by the other
  is an update, and \<open>UpdateTags\<close> makes the tag call.
\<close>

lemma UpdateTags_nil_value_to_empty_string:
  "UpdateTags
     \<lparr>IgnoreAWS = (\<lambda>t. t), Keys = (\<lambda>t. []), MapRange = (\<lambda>t. [(''a'', [])])\<rparr>
     Background
     \<lparr>ListTagsForResourceWithContext = (\<lambda>c i. Inr []),
      UntagResourceWithContext = (\<lambda>c i ks. None),
      TagResourceWithContext = (\<lambda>c i ts. None)\<rparr>
     ''arn'' (PointerMap [''a'' \<mapsto> None]) (StringMap [''a'' \<mapsto> []])
   = (None, [TagResource Background ''arn'' [\<lparr>Key = Some ''a'', Value = Some []\<rparr>]])"
proof -
  have r: "Removed (New (PointerMap [''a'' \<mapsto> None])) (New (StringMap [''a'' \<mapsto> []])) = Map.empty"
    by (auto simp: Removed_def fun_eq_iff)
  have u: "Updated (New (PointerMap [''a'' \<mapsto> None])) (New (StringMap [''a'' \<mapsto> []])) \<noteq> Map.empty"
    by (auto simp: Updated_def fun_eq_iff intro: exI [of _ "''a''"])
  show ?thesis
    using r u by (simp add: UpdateTags_def call_TagResource_def Tags_def)
qed

text \<open>
  C1. \<open>UpdateTags\<close> makes the untag call exactly when \<open>oldTags.Removed(newTags)\<close> is
  non-empty and the tag call exactly when \<open>oldTags.Updated(newTags)\<close> is non-empty, the
  untag call first, and no other call; the one exception is the claim's own: when the
  untag call fails, \<open>UpdateTags\<close> returns that error (wrapped by \<open>fmt.Errorf\<close> with \<open>%w\<close>) and
  makes no tag call. Without a failed untag call it returns the wrapped error of the tag
  call if that was made and failed, and nil otherwise. When \<open>oldTags\<close> equals \<open>newTags\<close> it
  makes no call and returns nil.
\<close>

theorem UpdateTags_calls:
  "(let removed = Removed (New oldTagsMap) (New newTagsMap);
        updated = Updated (New oldTagsMap) (New newTagsMap);
        tagKeys = Keys tf (IgnoreAWS tf removed);
        tags = Tags (MapRange tf) (IgnoreAWS tf updated);
        untagErr = UntagResourceWithContext conn ctx identifier tagKeys;
        tagErr = TagResourceWithContext conn ctx identifier tags;
        (res, calls) = UpdateTags tf ctx conn identifier oldTagsMap newTagsMap
    in
      calls =
        (if removed \<noteq> Map.empty then [UntagResource ctx identifier tagKeys] else [])
        @ (if updated \<noteq> Map.empty \<and> (removed = Map.empty \<or> untagErr = None)
           then [TagResource ctx identifier tags] else [])
      \<and> res =
        (if removed \<noteq> Map.empty \<and> untagErr \<noteq> None
         then map_option (Errorf (''untagging resource ('' @ identifier @ '')'')) untagErr
         else if updated \<noteq> Map.empty
         then map_option (Errorf (''tagging resource ('' @ identifier @ '')'')) tagErr
         else None)
      \<and> (removed \<noteq> Map.empty \<and> untagErr = Some e \<longrightarrow>
           res = Some (Errorf (''untagging resource ('' @ identifier @ '')'') e)
           \<and> calls = [UntagResource ctx identifier tagKeys]))
   \<and> (New oldTagsMap = New newTagsMap \<longrightarrow>
        UpdateTags tf ctx conn identifier oldTagsMap newTagsMap = (None, []))"
proof -
  have eq: "UpdateTags tf ctx conn identifier oldTagsMap newTagsMap = (None, [])"
    if "New oldTagsMap = New newTagsMap"
    using that by (simp add: UpdateTags_def Removed_same Updated_same)
  show ?thesis
    using eq
    by (auto simp: UpdateTags_def Let_def call_UntagResource_def call_TagResource_def
        split: option.splits)
qed

theorem UpdateTags_calls_witness:
  "New (StringMap [''a'' \<mapsto> ''1'']) = New (PointerMap [''a'' \<mapsto> Some ''1''])
   \<and> UpdateTags
        \<lparr>IgnoreAWS = (\<lambda>t. t), Keys = (\<lambda>t. [''a'']), MapRange = (\<lambda>t. [(''b'', ''2'')])\<rparr>
        Background
        \<lparr>ListTagsForResourceWithContext = (\<lambda>c i. Inr []),
         UntagResourceWithContext = (\<lambda>c i ks. Some (OtherError ''throttled'')),
         TagResourceWithContext = (\<lambda>c i ts. Some (OtherError ''throttled''))\<rparr>
        ''arn'' (StringMap [''a'' \<mapsto> ''1'']) (PointerMap [''a'' \<mapsto> Some ''1''])
      = (None, [])
   \<and> Removed (New (StringMap [''a'' \<mapsto> ''1''])) (New (StringMap [''b'' \<mapsto> ''2''])) \<noteq> Map.empty
   \<and> Updated (New (StringMap [''a'' \<mapsto> ''1''])) (New (StringMap [''b'' \<mapsto> ''2''])) \<noteq> Map.empty
   \<and> UpdateTags
        \<lparr>IgnoreAWS = (\<lambda>t. t), Keys = (\<lambda>t. [''a'']), MapRange = (\<lambda>t. [(''b'', ''2'')])\<rparr>
        Background
        \<lparr>ListTagsForResourceWithContext = (\<lambda>c i. Inr []),
         UntagResourceWithContext = (\<lambda>c i ks. Some (OtherError ''throttled'')),
         TagResourceWithContext = (\<lambda>c i ts. None)\<rparr>
        ''arn'' (StringMap [''a'' \<mapsto> ''1'']) (StringMap [''b'' \<mapsto> ''2''])
      = (Some (Errorf ''untagging resource (arn)'' (OtherError ''throttled'')),
         [UntagResource Background ''arn'' [''a'']])
   \<and> UpdateTags
        \<lparr>IgnoreAWS = (\<lambda>t. t), Keys = (\<lambda>t. [''a'']), MapRange = (\<lambda>t. [(''b'', ''2'')])\<rparr>
        Background
        \<lparr>ListTagsForResourceWithContext = (\<lambda>c i. Inr []),
         UntagResourceWithContext = (\<lambda>c i ks. None),
         TagResourceWithContext = (\<lambda>c i ts. None)\<rparr>
        ''arn'' (StringMap [''a'' \<mapsto> ''1'']) (StringMap [''b'' \<mapsto> ''2''])
      = (None,
         [UntagResource Background ''arn'' [''a''],
          TagResource Background ''arn'' [\<lparr>Key = Some ''b'', Value = Some ''2''\<rparr>]])"
proof -
  have n: "New (StringMap [''a'' \<mapsto> ''1'']) = New (PointerMap [''a'' \<mapsto> Some ''1''])"
    by (auto simp: fun_eq_iff)
  have r: "Removed (New (StringMap [''a'' \<mapsto> ''1''])) (New (StringMap [''b'' \<mapsto> ''2''])) \<noteq> Map.empty"
    by (auto simp: Removed_def fun_eq_iff intro: exI [of _ "''a''"])
  have u: "Updated (New (StringMap [''a'' \<mapsto> ''1''])) (New (StringMap [''b'' \<mapsto> ''2''])) \<noteq> Map.empty"
    by (auto simp: Updated_def fun_eq_iff intro: exI [of _ "''b''"])
  have fails: "UpdateTags
        \<lparr>IgnoreAWS = (\<lambda>t. t), Keys = (\<lambda>t. [''a'']), MapRange = (\<lambda>t. [(''b'', ''2'')])\<rparr>
        Background
        \<lparr>ListTagsForResourceWithContext = (\<lambda>c i. Inr []),
         UntagResourceWithContext = (\<lambda>c i ks. Some (OtherError ''throttled'')),
         TagResourceWithContext = (\<lambda>c i ts. None)\<rparr>
        ''arn'' (StringMap [''a'' \<mapsto> ''1'']) (StringMap [''b'' \<mapsto> ''2''])
      = (Some (Errorf ''untagging resource (arn)'' (OtherError ''throttled'')),
         [UntagResource Background ''arn'' [''a'']])"
    using r by (simp add: UpdateTags_def call_UntagResource_def)
  have both: "UpdateTags
        \<lparr>IgnoreAWS = (\<lambda>t. t), Keys = (\<lambda>t. [''a'']), MapRange = (\<lambda>t. [(''b'', ''2'')])\<rparr>
        Background
        \<lparr>ListTagsForResourceWithContext = (\<lambda>c i. Inr []),
         UntagResourceWithContext = (\<lambda>c i ks. None),
         TagResourceWithContext = (\<lambda>c i ts. None)\<rparr>
        ''arn'' (StringMap [''a'' \<mapsto> ''1'']) (StringMap [''b'' \<mapsto> ''2''])
      = (None,
         [UntagResource Background ''arn'' [''a''],
          TagResource Background ''arn'' [\<lparr>Key = Some ''b'', Value = Some ''2''\<rparr>]])"
    using r u by (simp add: UpdateTags_def call_UntagResource_def call_TagResource_def Tags_def)
  show ?thesis
    using n r u fails both UpdateTags_calls
      [of "StringMap [''a'' \<mapsto> ''1'']" "PointerMap [''a'' \<mapsto> Some ''1'']"
          "\<lparr>IgnoreAWS = (\<lambda>t. t), Keys = (\<lambda>t. [''a'']), MapRange = (\<lambda>t. [(''b'', ''2'')])\<rparr>"
          "\<lparr>ListTagsForResourceWithContext = (\<lambda>c i. Inr []),
            UntagResourceWithContext = (\<lambda>c i ks. Some (OtherError ''throttled'')),
            TagResourceWithContext = (\<lambda>c i ts. Some (OtherError ''throttled''))\<rparr>"
          Background "''arn''"]
    by blast
qed

subsection \<open>ListTags\<close>

text \<open>
  C8. When \<open>ListTagsForResource\<close> fails, \<open>ListTags\<close> of ecs returns nil tags and a
  \<open>NotFoundError\<close> holding the error if the error is an InvalidParameterException whose
  message holds the sentence about the inactive cluster, and the empty tag set with the
  error itself for every other failure.
\<close>

theorem ecs_ListTags_failure:
  assumes "ListTagsForResourceWithContext conn ctx identifier = Inl err"
  shows "fst (ecs_ListTags ctx conn identifier) =
     (if (case asAwsErr err of
            None \<Rightarrow> False
          | Some (code, message) \<Rightarrow>
              code = ''InvalidParameterException''
              \<and> Contains message
                  ''The specified cluster is inactive. Specify an active cluster and try again.'')
      then (None, Some (NotFoundError err identifier))
      else (Some Map.empty, Some err))"
  using assms
  by (simp add: ecs_ListTags_def call_ListTagsForResource_def ErrMessageContains_def
      split: option.splits)

theorem ecs_ListTags_failure_witness:
  "fst (ecs_ListTags Background
      \<lparr>ListTagsForResourceWithContext = (\<lambda>c i. Inl (AwsError ''InvalidParameterException''
          ''The specified cluster is inactive. Specify an active cluster and try again.'')),
       UntagResourceWithContext = (\<lambda>c i ks. None),
       TagResourceWithContext = (\<lambda>c i ts. None)\<rparr> ''arn'')
     = (None, Some (NotFoundError (AwsError ''InvalidParameterException''
          ''The specified cluster is inactive. Specify an active cluster and try again.'') ''arn''))
   \<and> fst (ecs_ListTags Background
      \<lparr>ListTagsForResourceWithContext = (\<lambda>c i. Inl (AwsError ''AccessDeniedException'' ''denied'')),
       UntagResourceWithContext = (\<lambda>c i ks. None),
       TagResourceWithContext = (\<lambda>c i ts. None)\<rparr> ''arn'')
     = (Some Map.empty, Some (AwsError ''AccessDeniedException'' ''denied''))"
  using
    ecs_ListTags_failure
      [of "\<lparr>ListTagsForResourceWithContext = (\<lambda>c i. Inl (AwsError ''InvalidParameterException''
              ''The specified cluster is inactive. Specify an active cluster and try again.'')),
            UntagResourceWithContext = (\<lambda>c i ks. None),
            TagResourceWithContext = (\<lambda>c i ts. None)\<rparr>" Background "''arn''"
          "AwsError ''InvalidParameterException''
              ''The specified cluster is inactive. Specify an active cluster and try again.''"]
    ecs_ListTags_failure
      [of "\<lparr>ListTagsForResourceWithContext = (\<lambda>c i. Inl (AwsError ''AccessDeniedException'' ''denied'')),
            UntagResourceWithContext = (\<lambda>c i ks. None),
            TagResourceWithContext = (\<lambda>c i ts. None)\<rparr>" Background "''arn''"
          "AwsError ''AccessDeniedException'' ''denied''"]
  by simp

text \<open>
  C9. On a successful \<open>DescribeTags\<close> response, \<open>ListTags\<close> of elbv2 panics exactly when the
  response holds no tag description, and otherwise returns the tag set of the first tag
  description with a nil error.
\<close>

theorem elbv2_ListTags_success:
  assumes "DescribeTagsWithContext conn ctx [identifier] = Inr tds"
  shows "(fst (elbv2_ListTags ctx conn identifier) = Panic \<longleftrightarrow> tds = [])
     \<and> (tds \<noteq> [] \<longrightarrow>
          fst (elbv2_ListTags ctx conn identifier)
            = Return (Some (KeyValueTags (TagDescription_Tags (hd tds))), None))"
  using assms
  by (simp add: elbv2_ListTags_def call_DescribeTags_def split: list.splits)

theorem elbv2_ListTags_success_witness:
  "fst (elbv2_ListTags Background \<lparr>DescribeTagsWithContext = (\<lambda>c is. Inr [])\<rparr> ''arn'') = Panic
   \<and> fst (elbv2_ListTags Background
        \<lparr>DescribeTagsWithContext = (\<lambda>c is. Inr
           [\<lparr>ResourceArn = Some ''arn'',
             TagDescription_Tags = [\<lparr>Key = Some ''Name'', Value = Some ''web''\<rparr>]\<rparr>,
            \<lparr>ResourceArn = Some ''other'', TagDescription_Tags = []\<rparr>])\<rparr> ''arn'')
      = Return (Some [''Name'' \<mapsto> Some ''web''], None)"
proof -
  have kv: "KeyValueTags [\<lparr>Key = Some ''Name'', Value = Some ''web''\<rparr>] = [''Name'' \<mapsto> Some ''web'']"
    by (auto simp: KeyValueTags_def StringValue_def fun_eq_iff)
  show ?thesis
    using kv
      elbv2_ListTags_success
        [of "\<lparr>DescribeTagsWithContext = (\<lambda>c is. Inr [])\<rparr>" Background "''arn''" "[]"]
      elbv2_ListTags_success
        [of "\<lparr>DescribeTagsWithContext = (\<lambda>c is. Inr
               [\<lparr>ResourceArn = Some ''arn'',
                 TagDescription_Tags = [\<lparr>Key = Some ''Name'', Value = Some ''web''\<rparr>]\<rparr>,
                \<lparr>ResourceArn = Some ''other'', TagDescription_Tags = []\<rparr>])\<rparr>" Background "''arn''"
            "[\<lparr>ResourceArn = Some ''arn'',
               TagDescription_Tags = [\<lparr>Key = Some ''Name'', Value = Some ''web''\<rparr>]\<rparr>,
              \<lparr>ResourceArn = Some ''other'', TagDescription_Tags = []\<rparr>]"]
    by simp
qed

section \<open>The context of the SDK calls\<close>

text \<open>
  The record of a call holds the context the SDK received: a call made with a context
  derived from the caller's is recorded with the derived one, which is another.
\<close>

lemma call_records_received_context:
  "map ctxOf (snd (call_ListTagsForResource conn c arn)) = [c]"
  "map ctxOf (snd (call_UntagResource conn c arn ks)) = [c]"
  "map ctxOf (snd (call_TagResource conn c arn ts)) = [c]"
  "map ctxOf (snd (call_DescribeTags elb c arns)) = [c]"
  "map ctxOf (snd (call_ListServices client c inp)) = [c]"
  by (simp_all add: call_ListTagsForResource_def call_UntagResource_def call_TagResource_def
      call_DescribeTags_def call_ListServices_def)

lemma derived_context_differs:
  "WithCancel c \<noteq> c" "WithTimeout c d \<noteq> c" "WithValue c k v \<noteq> c"
  by (induction c) auto

lemma substituted_context_is_recorded:
  "map ctxOf (snd (call_ListTagsForResource conn (WithTimeout ctx d) arn)) \<noteq> [ctx]"
  "map ctxOf (snd (call_ListServices client (WithCancel ctx) inp)) \<noteq> [ctx]"
  by (simp_all add: call_ListTagsForResource_def call_ListServices_def derived_context_differs)

lemma NextPage_ctx:
  "NextPage ctx conn p = (res, p', calls) \<Longrightarrow> list_all (\<lambda>i. ctxOf i = ctx) calls"
  by (auto simp: NextPage_def call_ListServices_def split: if_splits sum.splits)

lemma NextPage_calls:
  "HasMorePages p \<Longrightarrow> NextPage ctx conn p = (res, p', calls) \<Longrightarrow> calls \<noteq> []"
  by (auto simp: NextPage_def call_ListServices_def split: sum.splits)

lemma listServices_loop_ctx:
  "list_all (\<lambda>i. ctxOf i = ctx) lg \<Longrightarrow>
   list_all (\<lambda>i. ctxOf i = ctx) (snd (listServices_loop n ctx conn pages acc lg))"
proof (induction n arbitrary: pages acc lg)
  case 0
  then show ?case by simp
next
  case (Suc n)
  show ?case
  proof (cases "HasMorePages pages")
    case False
    then show ?thesis using Suc.prems by simp
  next
    case True
    obtain res p' calls where np: "NextPage ctx conn pages = (res, p', calls)"
      by (cases "NextPage ctx conn pages")
    have c: "list_all (\<lambda>i. ctxOf i = ctx) (lg @ calls)"
      using Suc.prems NextPage_ctx [OF np] by simp
    show ?thesis
    proof (cases res)
      case (Inl e)
      then show ?thesis using True np c by simp
    next
      case (Inr page)
      then show ?thesis using True np Suc.IH [OF c] by simp
    qed
  qed
qed

lemma listServices_loop_keeps_calls:
  "lg \<noteq> [] \<Longrightarrow> snd (listServices_loop n ctx conn pages acc lg) \<noteq> []"
proof (induction n arbitrary: pages acc lg)
  case 0
  then show ?case by simp
next
  case (Suc n)
  obtain res p' calls where np: "NextPage ctx conn pages = (res, p', calls)"
    by (cases "NextPage ctx conn pages")
  have c: "lg @ calls \<noteq> []" using Suc.prems by simp
  show ?case
    using Suc.prems np Suc.IH [OF c] by (cases res) auto
qed

lemma listServices_first_page:
  "snd (listServices (Suc n) ctx client input) \<noteq> []"
proof -
  let ?p = "NewListServicesPaginator input"
  have more: "HasMorePages ?p"
    by (simp add: NewListServicesPaginator_def HasMorePages_def)
  obtain res p' calls where np: "NextPage ctx client ?p = (res, p', calls)"
    by (cases "NextPage ctx client ?p")
  have c: "[] @ calls \<noteq> []"
    using NextPage_calls [OF more np] by simp
  show ?thesis
    unfolding listServices_def
    using more np c listServices_loop_keeps_calls [OF c] by (cases res) auto
qed

text \<open>
  C10. Every SDK call of the tag helpers and of \<open>listServices\<close> receives the context the
  caller supplied, and no context derived from it: \<open>ListTags\<close> of shield, ecs and elbv2
  each make one call, with that context; \<open>UpdateTags\<close> makes calls unless there is nothing
  to remove and nothing to update, each with that context; \<open>listServices\<close> fetches at
  least the first page, and every page it fetches, whatever their number, with that
  context.
\<close>

theorem helpers_forward_context:
  "map ctxOf (snd (shield_ListTags ctx conn identifier)) = [ctx]
   \<and> map ctxOf (snd (ecs_ListTags ctx conn identifier)) = [ctx]
   \<and> map ctxOf (snd (elbv2_ListTags ctx elb identifier)) = [ctx]
   \<and> list_all (\<lambda>i. ctxOf i = ctx) (snd (UpdateTags tf ctx conn identifier oldTagsMap newTagsMap))
   \<and> (snd (UpdateTags tf ctx conn identifier oldTagsMap newTagsMap) = [])
       = (Removed (New oldTagsMap) (New newTagsMap) = Map.empty
          \<and> Updated (New oldTagsMap) (New newTagsMap) = Map.empty)
   \<and> list_all (\<lambda>i. ctxOf i = ctx) (snd (listServices n ctx client input))
   \<and> snd (listServices (Suc n) ctx client input) \<noteq> []"
proof -
  have a: "map ctxOf (snd (shield_ListTags ctx conn identifier)) = [ctx]"
    by (simp add: shield_ListTags_def call_ListTagsForResource_def split: sum.splits)
  have b: "map ctxOf (snd (ecs_ListTags ctx conn identifier)) = [ctx]"
    by (simp add: ecs_ListTags_def call_ListTagsForResource_def split: sum.splits)
  have c: "map ctxOf (snd (elbv2_ListTags ctx elb identifier)) = [ctx]"
    by (simp add: elbv2_ListTags_def call_DescribeTags_def split: sum.splits list.splits)
  have d: "list_all (\<lambda>i. ctxOf i = ctx)
             (snd (UpdateTags tf ctx conn identifier oldTagsMap newTagsMap))"
    by (simp add: UpdateTags_def Let_def call_UntagResource_def call_TagResource_def
        split: option.splits)
  have e: "list_all (\<lambda>i. ctxOf i = ctx) (snd (listServices n ctx client input))"
    unfolding listServices_def by (rule listServices_loop_ctx) simp
  have f: "(snd (UpdateTags tf ctx conn identifier oldTagsMap newTagsMap) = [])
       = (Removed (New oldTagsMap) (New newTagsMap) = Map.empty
          \<and> Updated (New oldTagsMap) (New newTagsMap) = Map.empty)"
    by (rule UpdateTags_no_call)
  have g: "snd (listServices (Suc n) ctx client input) \<noteq> []"
    by (rule listServices_first_page)
  from a b c d e f g show ?thesis by simp
qed

theorem helpers_forward_context_witness:
  "listServices 5 (WithValue Background ''request'' ''42'')
      \<lparr>ListServicesCall = (\<lambda>c inp.
         if NextToken inp = None
         then Inr \<lparr>ServiceArns = [''svc-a''], OutputNextToken = Some ''page2''\<rparr>
         else Inr \<lparr>ServiceArns = [''svc-b''], OutputNextToken = None\<rparr>)\<rparr>
      \<lparr>Cluster = Some ''cluster'', LaunchType = [], SchedulingStrategy = [], NextToken = None\<rparr>
     = (Some (Inr [''svc-a'', ''svc-b'']),
        [ListServices (WithValue Background ''request'' ''42'')
           \<lparr>Cluster = Some ''cluster'', LaunchType = [], SchedulingStrategy = [], NextToken = None\<rparr>,
         ListServices (WithValue Background ''request'' ''42'')
           \<lparr>Cluster = Some ''cluster'', LaunchType = [], SchedulingStrategy = [],
            NextToken = Some ''page2''\<rparr>])
   \<and> list_all (\<lambda>i. ctxOf i = WithValue Background ''request'' ''42'')
        (snd (listServices 5 (WithValue Background ''request'' ''42'')
          \<lparr>ListServicesCall = (\<lambda>c inp.
             if NextToken inp = None
             then Inr \<lparr>ServiceArns = [''svc-a''], OutputNextToken = Some ''page2''\<rparr>
             else Inr \<lparr>ServiceArns = [''svc-b''], OutputNextToken = None\<rparr>)\<rparr>
          \<lparr>Cluster = Some ''cluster'', LaunchType = [], SchedulingStrategy = [], NextToken = None\<rparr>))
   \<and> map ctxOf (snd (shield_ListTags (WithValue Background ''request'' ''42'')
          \<lparr>ListTagsForResourceWithContext = (\<lambda>c i. Inr []),
           UntagResourceWithContext = (\<lambda>c i ks. None),
           TagResourceWithContext = (\<lambda>c i ts. None)\<rparr> ''arn''))
      = [WithValue Background ''request'' ''42'']"
proof -
  have run: "listServices 5 (WithValue Background ''request'' ''42'')
      \<lparr>ListServicesCall = (\<lambda>c inp.
         if NextToken inp = None
         then Inr \<lparr>ServiceArns = [''svc-a''], OutputNextToken = Some ''page2''\<rparr>
         else Inr \<lparr>ServiceArns = [''svc-b''], OutputNextToken = None\<rparr>)\<rparr>
      \<lparr>Cluster = Some ''cluster'', LaunchType = [], SchedulingStrategy = [], NextToken = None\<rparr>
     = (Some (Inr [''svc-a'', ''svc-b'']),
        [ListServices (WithValue Background ''request'' ''42'')
           \<lparr>Cluster = Some ''cluster'', LaunchType = [], SchedulingStrategy = [], NextToken = None\<rparr>,
         ListServices (WithValue Background ''request'' ''42'')
           \<lparr>Cluster = Some ''cluster'', LaunchType = [], SchedulingStrategy = [],
            NextToken = Some ''page2''\<rparr>])"
    by (simp add: listServices_def NewListServicesPaginator_def HasMorePages_def NextPage_def
        call_ListServices_def eval_nat_numeral)
  show ?thesis
    using run helpers_forward_context
      [of "WithValue Background ''request'' ''42''"
          "\<lparr>ListTagsForResourceWithContext = (\<lambda>c i. Inr []),
            UntagResourceWithContext = (\<lambda>c i ks. None),
            TagResourceWithContext = (\<lambda>c i ts. None)\<rparr>"
          "''arn''" _ _ _ _ 5
          "\<lparr>ListServicesCall = (\<lambda>c inp.
             if NextToken inp = None
             then Inr \<lparr>ServiceArns = [''svc-a''], OutputNextToken = Some ''page2''\<rparr>
             else Inr \<lparr>ServiceArns = [''svc-b''], OutputNextToken = None\<rparr>)\<rparr>"
          "\<lparr>Cluster = Some ''cluster'', LaunchType = [], SchedulingStrategy = [], NextToken = None\<rparr>"]
    by blast
qed

end
